theory Spec2Isabelle
  imports
    Complex_Main
    "HOL-Library.Multiset"
    "HOL-Library.Char_ord"
    "HOL-Library.List_Lexorder"
    "HOL-Library.Product_Lexorder"
begin

section \<open>GPA calculator: a shallow embedding of \<^verbatim>\<open>app.py\<close>\<close>

text \<open>
  The program is one Python script: a few pure helpers (\<^verbatim>\<open>parse_period\<close>,
  \<^verbatim>\<open>score_to_points\<close>, \<^verbatim>\<open>normalize_df\<close>, \<^verbatim>\<open>calculate_overall_gpa\<close>,
  \<^verbatim>\<open>generate_random_records\<close>) and a top-level part that is run again from the first
  line on every user action, with the list of grade records kept between runs.

  Conventions of the embedding.
  \<^item> A Python \<^verbatim>\<open>str\<close> is a \<^typ>\<open>string\<close> holding its UTF-8 bytes. The Kazakh labels of the
    script are written as byte lists and are only compared for equality.
  \<^item> The built-ins \<^verbatim>\<open>str.strip\<close>, \<^verbatim>\<open>str.upper\<close> and \<^verbatim>\<open>float\<close> on a text work over all of
    Unicode by tables that are not part of the script. They are parameters of the
    embedding: every function that calls one of them takes them as its first argument,
    and every property is proved for whatever they are.
  \<^item> A Python \<^verbatim>\<open>float\<close> or \<^verbatim>\<open>int\<close> is a \<^typ>\<open>real\<close>: rounding, \<^verbatim>\<open>nan\<close> and \<^verbatim>\<open>inf\<close> are not
    modelled. Comparisons against the integer thresholds of the script are exact on floats.
  \<^item> A raised exception is the left summand of a sum type.
  \<^item> A pandas data frame is the list of its rows, in row order.
\<close>

subsection \<open>Built-ins on texts\<close>

text \<open>
  The three built-ins the script calls on texts: \<^verbatim>\<open>s.strip()\<close>, \<^verbatim>\<open>s.upper()\<close> and
  \<^verbatim>\<open>float(s)\<close>, the last with \<open>None\<close> for the \<^verbatim>\<open>ValueError\<close> of a text that does not read
  as a number.
\<close>

record builtins =
  str_strip :: "string \<Rightarrow> string"
  str_upper :: "string \<Rightarrow> string"
  float_str :: "string \<Rightarrow> real option"

text \<open>
  What the built-ins do on texts of code points below 128, for the examples on such
  texts. The white space of that range is tab, line feed, vertical tab, form feed,
  carriage return (9 to 13), the four separators 28 to 31, and the blank (32); the
  letters a to z are the only characters \<^verbatim>\<open>upper\<close> changes there.
\<close>

definition ascii_space :: "char \<Rightarrow> bool" where
  "ascii_space c =
     (let n = (of_char c :: nat) in (9 \<le> n \<and> n \<le> 13) \<or> (28 \<le> n \<and> n \<le> 32))"

definition ascii_strip :: "string \<Rightarrow> string" where
  "ascii_strip s = rev (dropWhile ascii_space (rev (dropWhile ascii_space s)))"

definition ascii_upper_char :: "char \<Rightarrow> char" where
  "ascii_upper_char c =
     (let n = (of_char c :: nat) in if 97 \<le> n \<and> n \<le> 122 then char_of (n - 32) else c)"

definition ascii_upper :: "string \<Rightarrow> string" where
  "ascii_upper s = map ascii_upper_char s"

text \<open>\<^verbatim>\<open>s.startswith(p)\<close>.\<close>

definition startswith :: "string \<Rightarrow> string \<Rightarrow> bool" where
  "startswith s p = (take (length p) s = p)"

subsection \<open>Constants of the script\<close>

definition LETTER_TO_POINTS :: "(string \<times> real) list" where
  "LETTER_TO_POINTS = [(''A'', 4), (''B'', 3), (''C'', 2), (''D'', 1), (''F'', 0)]"

text \<open>The label of the letter score type, the first entry of \<^verbatim>\<open>SCORE_TYPES\<close>.\<close>

definition LETTER_TYPE :: string where
  "LETTER_TYPE = [CHR 0xD3, CHR 0x98, CHR 0xD1, CHR 0x80, CHR 0xD1, CHR 0x96, CHR 0xD0,
     CHR 0xBF, CHR 0xD1, CHR 0x82, CHR 0xD1, CHR 0x96, CHR 0xD0, CHR 0xBA]"

text \<open>The label of the numeric score type; it ends in \<^verbatim>\<open> (0-100)\<close>.\<close>

definition NUMERIC_TYPE :: string where
  "NUMERIC_TYPE = [CHR 0xD0, CHR 0xA1, CHR 0xD0, CHR 0xB0, CHR 0xD0, CHR 0xBD, CHR 0xD0,
     CHR 0xB4, CHR 0xD1, CHR 0x8B, CHR 0xD2, CHR 0x9B] @ '' (0-100)''"

definition SCORE_TYPES :: "string list" where
  "SCORE_TYPES = [LETTER_TYPE, NUMERIC_TYPE]"

definition PERIODS :: "string list" where
  "PERIODS = [''Q1'', ''Q2'', ''Q3'', ''Q4'', ''S1'', ''S2'']"

text \<open>The subject catalogue \<^verbatim>\<open>RANDOM_SUBJECTS\<close>: ten names, in the order of the script.\<close>

definition RANDOM_SUBJECTS :: "string list" where
  "RANDOM_SUBJECTS =
    [ [CHR 0xD0, CHR 0x9C, CHR 0xD0, CHR 0xB0, CHR 0xD1, CHR 0x82, CHR 0xD0, CHR 0xB5, CHR 0xD0,
       CHR 0xBC, CHR 0xD0, CHR 0xB0, CHR 0xD1, CHR 0x82, CHR 0xD0, CHR 0xB8, CHR 0xD0, CHR 0xBA,
       CHR 0xD0, CHR 0xB0],
      [CHR 0xD0, CHR 0xA4, CHR 0xD0, CHR 0xB8, CHR 0xD0, CHR 0xB7, CHR 0xD0, CHR 0xB8, CHR 0xD0,
       CHR 0xBA, CHR 0xD0, CHR 0xB0],
      [CHR 0xD0, CHR 0xA5, CHR 0xD0, CHR 0xB8, CHR 0xD0, CHR 0xBC, CHR 0xD0, CHR 0xB8, CHR 0xD1,
       CHR 0x8F],
      [CHR 0xD0, CHR 0x91, CHR 0xD0, CHR 0xB8, CHR 0xD0, CHR 0xBE, CHR 0xD0, CHR 0xBB, CHR 0xD0,
       CHR 0xBE, CHR 0xD0, CHR 0xB3, CHR 0xD0, CHR 0xB8, CHR 0xD1, CHR 0x8F],
      [CHR 0xD0, CHR 0xA2, CHR 0xD0, CHR 0xB0, CHR 0xD1, CHR 0x80, CHR 0xD0, CHR 0xB8, CHR 0xD1,
       CHR 0x85],
      [CHR 0xD0, CHR 0x90, CHR 0xD2, CHR 0x93, CHR 0xD1, CHR 0x8B, CHR 0xD0, CHR 0xBB, CHR 0xD1,
       CHR 0x88, CHR 0xD1, CHR 0x8B, CHR 0xD0, CHR 0xBD, CHR 0x20, CHR 0xD1, CHR 0x82, CHR 0xD1,
       CHR 0x96, CHR 0xD0, CHR 0xBB, CHR 0xD1, CHR 0x96],
      [CHR 0xD0, CHR 0x98, CHR 0xD0, CHR 0xBD, CHR 0xD1, CHR 0x84, CHR 0xD0, CHR 0xBE, CHR 0xD1,
       CHR 0x80, CHR 0xD0, CHR 0xBC, CHR 0xD0, CHR 0xB0, CHR 0xD1, CHR 0x82, CHR 0xD0, CHR 0xB8,
       CHR 0xD0, CHR 0xBA, CHR 0xD0, CHR 0xB0],
      [CHR 0xD0, CHR 0x93, CHR 0xD0, CHR 0xB5, CHR 0xD0, CHR 0xBE, CHR 0xD0, CHR 0xB3, CHR 0xD1,
       CHR 0x80, CHR 0xD0, CHR 0xB0, CHR 0xD1, CHR 0x84, CHR 0xD0, CHR 0xB8, CHR 0xD1, CHR 0x8F],
      [CHR 0xD3, CHR 0xA8, CHR 0xD0, CHR 0xBD, CHR 0xD0, CHR 0xB5, CHR 0xD1, CHR 0x80],
      [CHR 0xD2, CHR 0x9A, CHR 0xD0, CHR 0xB0, CHR 0xD0, CHR 0xB7, CHR 0xD0, CHR 0xB0, CHR 0xD2,
       CHR 0x9B, CHR 0x20, CHR 0xD1, CHR 0x82, CHR 0xD1, CHR 0x96, CHR 0xD0, CHR 0xBB, CHR 0xD1,
       CHR 0x96] ]"

subsection \<open>Period classifier\<close>

text \<open>
  \<^verbatim>\<open>parse_period\<close>. On a string, \<^verbatim>\<open>period_raw or ""\<close> is the string itself. The tests come in
  the order of the source: leading Q, leading S, and only then the empty value.
\<close>

definition parse_period :: "builtins \<Rightarrow> string \<Rightarrow> string \<times> string" where
  "parse_period py period_raw =
     (let v = str_upper py (str_strip py period_raw) in
      if startswith v ''Q'' then (''Quarter'', v)
      else if startswith v ''S'' then (''Semester'', v)
      else (''Other'', if v \<noteq> [] then v else ''N/A''))"

text \<open>
  The period classifier in the words of the specification: trim and uppercase; the empty
  value first, then the leading letter. Its period types are an enumeration.
\<close>

datatype period_kind = Quarter | Semester | Other

fun kind_label :: "period_kind \<Rightarrow> string" where
  "kind_label Quarter = ''Quarter''"
| "kind_label Semester = ''Semester''"
| "kind_label Other = ''Other''"

definition parsePeriod_spec :: "builtins \<Rightarrow> string \<Rightarrow> period_kind \<times> string" where
  "parsePeriod_spec py raw =
     (let v = str_upper py (str_strip py raw) in
      case v of
        [] \<Rightarrow> (Other, ''N/A'')
      | c # _ \<Rightarrow>
          if c = CHR ''Q'' then (Quarter, v)
          else if c = CHR ''S'' then (Semester, v)
          else (Other, v))"

subsection \<open>Grade normaliser\<close>

datatype py_error = ValueError | IndexError

text \<open>
  A grade as the script holds it, \<^verbatim>\<open>str | float | int\<close>: a text (the letter chosen in the
  form) or a number (the value of the numeric input, or of \<^verbatim>\<open>random.randint\<close>).
\<close>

datatype score_value = Str string | Num real

text \<open>
  \<^verbatim>\<open>float(score_value)\<close>. A number converts to itself; a text is read by the built-in
  (decimal notation, exponents, underscores, surrounding white space are its business).
\<close>

definition py_float :: "builtins \<Rightarrow> score_value \<Rightarrow> py_error + real" where
  "py_float py v =
     (case v of
        Num x \<Rightarrow> Inr x
      | Str s \<Rightarrow> (case float_str py s of None \<Rightarrow> Inl ValueError | Some x \<Rightarrow> Inr x))"

text \<open>
  \<^verbatim>\<open>LETTER_TO_POINTS.get(str(score_value).upper(), 0.0)\<close>. The text of a number starts with
  a digit or a minus sign, so it is never one of the five keys and the look-up yields the
  default.
\<close>

definition letter_points :: "builtins \<Rightarrow> score_value \<Rightarrow> real" where
  "letter_points py v =
     (case v of
        Str s \<Rightarrow>
          (case map_of LETTER_TO_POINTS (str_upper py s) of Some p \<Rightarrow> p | None \<Rightarrow> 0)
      | Num x \<Rightarrow> 0)"

text \<open>
  \<^verbatim>\<open>score_to_points\<close>. Every score type other than the letter label takes the numeric
  branch, as in the source.
\<close>

definition score_to_points :: "builtins \<Rightarrow> string \<Rightarrow> score_value \<Rightarrow> py_error + real" where
  "score_to_points py score_type score_value =
     (if score_type = LETTER_TYPE then Inr (letter_points py score_value)
      else
        (case py_float py score_value of
           Inl e \<Rightarrow> Inl e
         | Inr numeric \<Rightarrow>
             if numeric \<ge> 90 then Inr 4
             else if numeric \<ge> 80 then Inr 3
             else if numeric \<ge> 70 then Inr 2
             else if numeric \<ge> 60 then Inr 1
             else Inr 0))"

text \<open>
  The plain decimal fragment of what \<^verbatim>\<open>float\<close> reads from a text of code points below
  128: optional white space around, an optional sign, digits with at most one point and
  at least one digit. It serves as a concrete reader where an example needs one.
\<close>

definition digit_of :: "char \<Rightarrow> nat option" where
  "digit_of c =
     (let n = (of_char c :: nat) in if 48 \<le> n \<and> n \<le> 57 then Some (n - 48) else None)"

fun digits_acc :: "nat \<Rightarrow> string \<Rightarrow> nat option" where
  "digits_acc a [] = Some a"
| "digits_acc a (c # cs) =
     (case digit_of c of None \<Rightarrow> None | Some d \<Rightarrow> digits_acc (10 * a + d) cs)"

definition float_decimal :: "string \<Rightarrow> real option" where
  "float_decimal s =
     (let t = ascii_strip s;
          neg = startswith t ''-'';
          body = (if startswith t ''-'' \<or> startswith t ''+'' then tl t else t);
          ip = takeWhile (\<lambda>c. c \<noteq> CHR ''.'') body;
          fp = drop (Suc (length ip)) body
      in if ip = [] \<and> fp = [] then None
         else
           (case (digits_acc 0 ip, digits_acc 0 fp) of
              (Some a, Some b) \<Rightarrow>
                Some ((if neg then - 1 else 1) * (real a + real b / 10 ^ length fp))
            | _ \<Rightarrow> None))"

definition ascii_py :: builtins where
  "ascii_py = \<lparr> str_strip = ascii_strip, str_upper = ascii_upper, float_str = float_decimal \<rparr>"

text \<open>
  The grade normaliser in the words of the specification: an enumeration of score types,
  a table with a default for letters, threshold bands for numbers, and
  \<open>InvalidGradeError\<close> for a text that does not read as a number.
\<close>

datatype ScoreType = Letter | Numeric

datatype spec_error = InvalidGradeError

definition band :: "real \<Rightarrow> real" where
  "band x =
     (if 90 \<le> x then 4
      else if 80 \<le> x \<and> x < 90 then 3
      else if 70 \<le> x \<and> x < 80 then 2
      else if 60 \<le> x \<and> x < 70 then 1
      else 0)"

fun table_points :: "string \<Rightarrow> real" where
  "table_points s =
     (if s = ''A'' then 4 else if s = ''B'' then 3 else if s = ''C'' then 2
      else if s = ''D'' then 1 else if s = ''F'' then 0 else 0)"

fun scoreToPoints_spec :: "builtins \<Rightarrow> ScoreType \<Rightarrow> score_value \<Rightarrow> spec_error + real" where
  "scoreToPoints_spec py Letter (Str s) = Inr (table_points (str_upper py s))"
| "scoreToPoints_spec py Letter (Num x) = Inr 0"
| "scoreToPoints_spec py Numeric (Num x) = Inr (band x)"
| "scoreToPoints_spec py Numeric (Str s) =
     (case float_str py s of None \<Rightarrow> Inl InvalidGradeError | Some x \<Rightarrow> Inr (band x))"

text \<open>How the script's score-type labels and exception read in the specification's terms.\<close>

definition score_type_of :: "string \<Rightarrow> ScoreType" where
  "score_type_of label = (if label = LETTER_TYPE then Letter else Numeric)"

fun as_spec :: "py_error + real \<Rightarrow> spec_error + real" where
  "as_spec (Inl e) = Inl InvalidGradeError"
| "as_spec (Inr p) = Inr p"

subsection \<open>Records and the normalised table\<close>

text \<open>
  A stored grade record (a \<^verbatim>\<open>dict\<close> of the list \<^verbatim>\<open>st.session_state.records\<close>). Credits are
  numbers in every record the script creates (\<^verbatim>\<open>float(credits)\<close> in the form, small integers
  in the generator and the initial list), so \<^verbatim>\<open>pd.to_numeric(..., errors="coerce").fillna(0.0)\<close>
  leaves them as they are.
\<close>

record grade_record =
  subject :: string
  credits :: real
  score_type :: string
  grade :: score_value
  period :: string

text \<open>
  A row of \<^verbatim>\<open>normalize_df\<close>'s result: the record and the derived columns. The column
  \<^verbatim>\<open>subject_display\<close> (the subject with an icon in front) is left out: nothing below reads it.
\<close>

record normalized_record = grade_record +
  gpa_points :: real
  weighted_points :: real
  period_type :: string
  period_name :: string

text \<open>
  The column \<^verbatim>\<open>gpa_points\<close>: \<^verbatim>\<open>score_to_points\<close> applied row by row, an exception of any row
  ending the whole call.
\<close>

fun gpa_points_column :: "builtins \<Rightarrow> grade_record list \<Rightarrow> py_error + real list" where
  "gpa_points_column py [] = Inr []"
| "gpa_points_column py (r # rs) =
     (case score_to_points py (score_type r) (grade r) of
        Inl e \<Rightarrow> Inl e
      | Inr p \<Rightarrow>
          (case gpa_points_column py rs of
             Inl e \<Rightarrow> Inl e
           | Inr ps \<Rightarrow> Inr (p # ps)))"

definition normalize_row :: "builtins \<Rightarrow> grade_record \<Rightarrow> real \<Rightarrow> normalized_record" where
  "normalize_row py r p =
     \<lparr> subject = subject r, credits = credits r, score_type = score_type r,
       grade = grade r, period = period r,
       gpa_points = p, weighted_points = p * credits r,
       period_type = fst (parse_period py (period r)),
       period_name = snd (parse_period py (period r)) \<rparr>"

definition normalize_df ::
  "builtins \<Rightarrow> grade_record list \<Rightarrow> py_error + normalized_record list" where
  "normalize_df py df =
     (case gpa_points_column py df of
        Inl e \<Rightarrow> Inl e
      | Inr ps \<Rightarrow> Inr (map (\<lambda>(r, p). normalize_row py r p) (zip df ps)))"

subsection \<open>Aggregator\<close>

definition calculate_overall_gpa :: "normalized_record list \<Rightarrow> real" where
  "calculate_overall_gpa data =
     (let total_credits = sum_list (map credits data) in
      if total_credits \<le> 0 then 0
      else sum_list (map weighted_points data) / total_credits)"

text \<open>A row of the per-period table \<^verbatim>\<open>period_gpa\<close>.\<close>

record period_summary =
  g_period_type :: string
  g_period_name :: string
  total_weighted :: real
  total_credits :: real
  gpa :: real

definition group_key :: "normalized_record \<Rightarrow> string \<times> string" where
  "group_key r = (period_type r, period_name r)"

definition group_rows :: "normalized_record list \<Rightarrow> string \<times> string \<Rightarrow> normalized_record list" where
  "group_rows data k = filter (\<lambda>r. group_key r = k) data"

definition summarize :: "normalized_record list \<Rightarrow> string \<times> string \<Rightarrow> period_summary" where
  "summarize data k =
     (let tw = sum_list (map weighted_points (group_rows data k));
          tc = sum_list (map credits (group_rows data k))
      in \<lparr> g_period_type = fst k, g_period_name = snd k,
           total_weighted = tw, total_credits = tc,
           gpa = (if tc > 0 then tw / tc else 0) \<rparr>)"

text \<open>
  \<^verbatim>\<open>calc_df.groupby(["period_type", "period_name"], as_index=False).agg(...)\<close> and the
  \<^verbatim>\<open>gpa\<close> column: one row per distinct key, the keys in ascending order (pandas sorts group
  keys; texts compare by code point, which is the byte order of UTF-8).
\<close>

definition period_gpa :: "normalized_record list \<Rightarrow> period_summary list" where
  "period_gpa calc_df = map (summarize calc_df) (sort (remdups (map group_key calc_df)))"

text \<open>
  The trend table: \<^verbatim>\<open>order_key\<close> is the rank of the period name in \<^verbatim>\<open>order_map\<close>, or 99, and
  the rows are sorted by it. The order pandas gives to rows of equal key is not fixed by
  its default sorting method; the model keeps them in their given order.
\<close>

definition order_map :: "(string \<times> nat) list" where
  "order_map = [(''Q1'', 1), (''Q2'', 2), (''Q3'', 3), (''Q4'', 4), (''S1'', 5), (''S2'', 6)]"

definition order_key :: "string \<Rightarrow> nat" where
  "order_key name = (case map_of order_map name of Some k \<Rightarrow> k | None \<Rightarrow> 99)"

definition trend_df :: "period_summary list \<Rightarrow> period_summary list" where
  "trend_df summaries = sort_key (\<lambda>s. order_key (g_period_name s)) summaries"

subsection \<open>Random records\<close>

text \<open>
  The outcomes of the pseudo-random generator are an explicit argument: a list of raw
  natural numbers, one consumed by each elementary draw (0 once the list is used up).
  Each library call maps a raw number onto its range, so that every result the call can
  have is the image of some raw number, and nothing else is.
\<close>

type_synonym rng = "nat list"

fun next_raw :: "rng \<Rightarrow> nat \<times> rng" where
  "next_raw [] = (0, [])"
| "next_raw (r # g) = (r, g)"

text \<open>\<^verbatim>\<open>random.choice(seq)\<close>: an element of \<open>seq\<close>; \<^verbatim>\<open>IndexError\<close> on an empty one.\<close>

definition choice :: "'a list \<Rightarrow> rng \<Rightarrow> py_error + ('a \<times> rng)" where
  "choice seq g =
     (if seq = [] then Inl IndexError
      else Inr (seq ! (fst (next_raw g) mod length seq), snd (next_raw g)))"

text \<open>\<^verbatim>\<open>random.randint(a, b)\<close>: an integer from \<open>a\<close> to \<open>b\<close>, both included.\<close>

definition randint :: "int \<Rightarrow> int \<Rightarrow> rng \<Rightarrow> py_error + (int \<times> rng)" where
  "randint a b g =
     (if b < a then Inl ValueError
      else Inr (a + int (fst (next_raw g) mod nat (b - a + 1)), snd (next_raw g)))"

text \<open>
  \<^verbatim>\<open>random.sample(population, k)\<close>: \<open>k\<close> elements at pairwise different positions, in the
  order drawn; \<^verbatim>\<open>ValueError\<close> when \<open>k\<close> is negative or larger than the population.
  \<open>draw\<close> takes one element out of those left, \<open>k\<close> times.
\<close>

fun draw :: "'a list \<Rightarrow> nat \<Rightarrow> rng \<Rightarrow> 'a list \<times> rng" where
  "draw population 0 g = ([], g)"
| "draw population (Suc k) g =
     (let i = fst (next_raw g) mod length population;
          rest = draw (take i population @ drop (Suc i) population) k (snd (next_raw g))
      in (population ! i # fst rest, snd rest))"

definition sample :: "'a list \<Rightarrow> int \<Rightarrow> rng \<Rightarrow> py_error + ('a list \<times> rng)" where
  "sample population k g =
     (if k < 0 \<or> int (length population) < k then Inl ValueError
      else Inr (draw population (nat k) g))"

definition LETTER_CHOICES :: "string list" where
  "LETTER_CHOICES = [''A'', ''B'', ''C'', ''D'', ''F'']"

definition CREDIT_CHOICES :: "real list" where
  "CREDIT_CHOICES = [2, 3, 4]"

text \<open>The grade of a generated record: a letter, or \<^verbatim>\<open>random.randint(55, 100)\<close>.\<close>

definition random_grade :: "string \<Rightarrow> rng \<Rightarrow> py_error + (score_value \<times> rng)" where
  "random_grade st g =
     (if st = LETTER_TYPE then
        (case choice LETTER_CHOICES g of
           Inl e \<Rightarrow> Inl e
         | Inr (l, g') \<Rightarrow> Inr (Str l, g'))
      else
        (case randint 55 100 g of
           Inl e \<Rightarrow> Inl e
         | Inr (n, g') \<Rightarrow> Inr (Num (real_of_int n), g')))"

text \<open>
  The body of the \<^verbatim>\<open>for\<close> loop of \<^verbatim>\<open>generate_random_records\<close>, once per sampled subject:
  the draws come in the order score type, grade, credits, period.
\<close>

fun make_records :: "string list \<Rightarrow> rng \<Rightarrow> py_error + grade_record list" where
  "make_records [] g = Inr []"
| "make_records (s # ss) g =
     (case choice SCORE_TYPES g of
        Inl e \<Rightarrow> Inl e
      | Inr (st, g1) \<Rightarrow>
     (case random_grade st g1 of
        Inl e \<Rightarrow> Inl e
      | Inr (gr, g2) \<Rightarrow>
     (case choice CREDIT_CHOICES g2 of
        Inl e \<Rightarrow> Inl e
      | Inr (c, g3) \<Rightarrow>
     (case choice PERIODS g3 of
        Inl e \<Rightarrow> Inl e
      | Inr (p, g4) \<Rightarrow>
     (case make_records ss g4 of
        Inl e \<Rightarrow> Inl e
      | Inr recs \<Rightarrow>
          Inr (\<lparr> subject = s, credits = c, score_type = st, grade = gr, period = p \<rparr>
               # recs))))))"

definition generate_random_records :: "int \<Rightarrow> rng \<Rightarrow> py_error + grade_record list" where
  "generate_random_records size_arg g =
     (case sample RANDOM_SUBJECTS (min size_arg (int (length RANDOM_SUBJECTS))) g of
        Inl e \<Rightarrow> Inl e
      | Inr (subjects, g') \<Rightarrow> make_records subjects g')"

subsection \<open>Record store and the script's run\<close>

text \<open>
  The values the widgets of the form \<^verbatim>\<open>add_record_form\<close> hand to the script on a run.
\<close>

record form_values =
  f_subject :: string
  f_credits :: real
  f_score_type :: string
  f_grade :: score_value
  f_period :: string


text \<open>The message boxes \<^verbatim>\<open>st.warning\<close>, \<^verbatim>\<open>st.success\<close> and \<^verbatim>\<open>st.info\<close>.\<close>

datatype notice = Warning | Success | Info

text \<open>
  The body of the form: on submission a blank subject is answered with a warning, any
  other with the record appended. No other field is looked at.
\<close>

definition add_record_form ::
  "builtins \<Rightarrow> bool \<Rightarrow> form_values \<Rightarrow> grade_record list
     \<Rightarrow> grade_record list \<times> notice option" where
  "add_record_form py submitted fv records =
     (if submitted then
        (if str_strip py (f_subject fv) = [] then (records, Some Warning)
         else
           (records @
              [\<lparr> subject = str_strip py (f_subject fv), credits = f_credits fv,
                 score_type = f_score_type fv, grade = f_grade fv, period = f_period fv \<rparr>],
            Some Success))
      else (records, None))"

text \<open>
  One user action per run of the script: the form submitted, one of the two buttons
  pressed (the first with the outcomes of its random draws), or neither.
\<close>

datatype event = Submit form_values | RandomizeClick rng | ClearClick | Rerun

text \<open>
  The page a run ends with: the notice that no data is there (the script stops), the
  uncaught exception, or the table, the overall GPA and the per-period table.
\<close>

datatype page =
    NoData
  | Crashed py_error
  | Shown "normalized_record list" real "period_summary list"

definition render :: "builtins \<Rightarrow> grade_record list \<Rightarrow> page" where
  "render py records =
     (if records = [] then NoData
      else
        (case normalize_df py records of
           Inl e \<Rightarrow> Crashed e
         | Inr calc_df \<Rightarrow> Shown calc_df (calculate_overall_gpa calc_df) (period_gpa calc_df)))"

text \<open>
  A run: the sidebar first, where the action changes the stored records, then the table
  built from what is stored by then. The result is the stored records after the run, the
  message of the sidebar, and the page.
\<close>

definition script_run ::
  "builtins \<Rightarrow> event \<Rightarrow> grade_record list
     \<Rightarrow> grade_record list \<times> notice option \<times> page" where
  "script_run py ev records =
     (case ev of
        Submit fv \<Rightarrow>
          (let (records', n) = add_record_form py True fv records
           in (records', n, render py records'))
      | RandomizeClick g \<Rightarrow>
          (case generate_random_records 6 g of
             Inl e \<Rightarrow> (records, None, Crashed e)
           | Inr records' \<Rightarrow> (records', Some Success, render py records'))
      | ClearClick \<Rightarrow> ([], Some Info, render py [])
      | Rerun \<Rightarrow> (records, None, render py records))"

text \<open>
  The records the session starts with: three letter grades and three numeric ones, over
  the periods Q1, Q1, Q2, Q2, S1, S2. Their subjects are entries of the catalogue.
\<close>

definition initial_records :: "grade_record list" where
  "initial_records =
    [ \<lparr> subject = RANDOM_SUBJECTS ! 0, credits = 4, score_type = LETTER_TYPE,
        grade = Str ''A'', period = ''Q1'' \<rparr>,
      \<lparr> subject = RANDOM_SUBJECTS ! 1, credits = 3, score_type = NUMERIC_TYPE,
        grade = Num 86, period = ''Q1'' \<rparr>,
      \<lparr> subject = RANDOM_SUBJECTS ! 5, credits = 2, score_type = LETTER_TYPE,
        grade = Str ''B'', period = ''Q2'' \<rparr>,
      \<lparr> subject = RANDOM_SUBJECTS ! 4, credits = 2, score_type = NUMERIC_TYPE,
        grade = Num 92, period = ''Q2'' \<rparr>,
      \<lparr> subject = RANDOM_SUBJECTS ! 6, credits = 3, score_type = LETTER_TYPE,
        grade = Str ''A'', period = ''S1'' \<rparr>,
      \<lparr> subject = RANDOM_SUBJECTS ! 3, credits = 3, score_type = NUMERIC_TYPE,
        grade = Num 74, period = ''S2'' \<rparr> ]"

text \<open>
  The table \<^verbatim>\<open>normalize_df\<close> makes of the initial records: their points are 4, 3, 3, 4, 4
  and 2.
\<close>

definition initial_rows :: "normalized_record list" where
  "initial_rows =
     map (\<lambda>(r, p). normalize_row ascii_py r p) (zip initial_records [4, 3, 3, 4, 4, 2])"

text \<open>The key columns of a row of the per-period table.\<close>

definition key_of :: "period_summary \<Rightarrow> string \<times> string" where
  "key_of s = (g_period_type s, g_period_name s)"

text \<open>
  The shape of a generated record: credits out of \<^verbatim>\<open>[2, 3, 4]\<close>, a period of \<^verbatim>\<open>PERIODS\<close>, and
  a grade that fits the score type, one of the five letters under the letter label and a
  whole number from 55 to 100 under the numeric one.
\<close>

definition grade_ok :: "string \<Rightarrow> score_value \<Rightarrow> bool" where
  "grade_ok st gr =
     (case gr of
        Str l \<Rightarrow> st = LETTER_TYPE \<and> l \<in> set LETTER_CHOICES
      | Num x \<Rightarrow> st = NUMERIC_TYPE \<and> 55 \<le> x \<and> x \<le> 100 \<and> x = real_of_int \<lfloor>x\<rfloor>)"

definition generated_ok :: "grade_record \<Rightarrow> bool" where
  "generated_ok r =
     (credits r \<in> set CREDIT_CHOICES \<and> period r \<in> set PERIODS
      \<and> grade_ok (score_type r) (grade r))"



text \<open>
  Two submissions for the examples below: chemistry with 3 credits and the numeric grade
  85, and one with a subject of blanks.
\<close>

definition form_chem :: form_values where
  "form_chem = \<lparr> f_subject = '' Chem '', f_credits = 3, f_score_type = NUMERIC_TYPE,
                 f_grade = Num 85, f_period = ''Q1'' \<rparr>"

definition form_blank :: form_values where
  "form_blank = \<lparr> f_subject = ''   '', f_credits = 3, f_score_type = LETTER_TYPE,
                  f_grade = Str ''A'', f_period = ''Q1'' \<rparr>"

section \<open>Properties\<close>

subsection \<open>Period classifier\<close>

lemma ascii_upper_nil: "(ascii_upper s = []) = (s = [])"
  by (simp add: ascii_upper_def)

lemma ascii_strip_blank: "ascii_strip ''   '' = []"
  by code_simp

text \<open>
  C3. For every text, and whatever \<^verbatim>\<open>strip\<close> and \<^verbatim>\<open>upper\<close> are, \<^verbatim>\<open>parse_period\<close> is the
  specification's period classifier: a plain function of its text (no exception is part
  of its result) that trims and uppercases and answers (Other, N/A) when the value is
  empty, (Quarter, value) on a leading Q, (Semester, value) on a leading S and
  (Other, value) otherwise. Where \<^verbatim>\<open>upper\<close> gives the empty text for the empty text only,
  as Python's does, the first case is the one of an empty trimmed text. The four examples
  of the specification, and one with blanks around.
\<close>

theorem parse_period_refines:
  "parse_period py raw
     = (kind_label (fst (parsePeriod_spec py raw)), snd (parsePeriod_spec py raw))
   \<and> parse_period py raw =
       (let v = str_upper py (str_strip py raw) in
        if v = [] then (''Other'', ''N/A'')
        else if hd v = CHR ''Q'' then (''Quarter'', v)
        else if hd v = CHR ''S'' then (''Semester'', v)
        else (''Other'', v))
   \<and> ((\<forall>s. (str_upper py s = []) = (s = [])) \<longrightarrow>
        parse_period py raw =
          (let v = str_upper py (str_strip py raw) in
           if str_strip py raw = [] then (''Other'', ''N/A'')
           else if hd v = CHR ''Q'' then (''Quarter'', v)
           else if hd v = CHR ''S'' then (''Semester'', v)
           else (''Other'', v)))
   \<and> parse_period ascii_py ''q1'' = (''Quarter'', ''Q1'')
   \<and> parse_period ascii_py [] = (''Other'', ''N/A'')
   \<and> parse_period ascii_py ''S2'' = (''Semester'', ''S2'')
   \<and> parse_period ascii_py ''midterm'' = (''Other'', ''MIDTERM'')
   \<and> parse_period ascii_py ''  s1 '' = (''Semester'', ''S1'')"
proof -
  have a: "parse_period py raw
      = (kind_label (fst (parsePeriod_spec py raw)), snd (parsePeriod_spec py raw))"
    by (cases "str_upper py (str_strip py raw)")
      (simp_all add: parse_period_def parsePeriod_spec_def startswith_def Let_def)
  have b: "parse_period py raw =
       (let v = str_upper py (str_strip py raw) in
        if v = [] then (''Other'', ''N/A'')
        else if hd v = CHR ''Q'' then (''Quarter'', v)
        else if hd v = CHR ''S'' then (''Semester'', v)
        else (''Other'', v))"
    by (cases "str_upper py (str_strip py raw)")
      (simp_all add: parse_period_def startswith_def Let_def)
  have b': "(\<forall>s. (str_upper py s = []) = (s = [])) \<longrightarrow>
        parse_period py raw =
          (let v = str_upper py (str_strip py raw) in
           if str_strip py raw = [] then (''Other'', ''N/A'')
           else if hd v = CHR ''Q'' then (''Quarter'', v)
           else if hd v = CHR ''S'' then (''Semester'', v)
           else (''Other'', v))"
  proof
    assume "\<forall>s. (str_upper py s = []) = (s = [])"
    then have "(str_upper py (str_strip py raw) = []) = (str_strip py raw = [])" by blast
    with b show "parse_period py raw =
          (let v = str_upper py (str_strip py raw) in
           if str_strip py raw = [] then (''Other'', ''N/A'')
           else if hd v = CHR ''Q'' then (''Quarter'', v)
           else if hd v = CHR ''S'' then (''Semester'', v)
           else (''Other'', v))"
      by (simp add: Let_def)
  qed
  have c: "parse_period ascii_py ''q1'' = (''Quarter'', ''Q1'')" by code_simp
  have d: "parse_period ascii_py [] = (''Other'', ''N/A'')" by code_simp
  have e: "parse_period ascii_py ''S2'' = (''Semester'', ''S2'')" by code_simp
  have f: "parse_period ascii_py ''midterm'' = (''Other'', ''MIDTERM'')" by code_simp
  have g: "parse_period ascii_py ''  s1 '' = (''Semester'', ''S1'')" by code_simp
  from a b b' c d e f g show ?thesis by blast
qed

theorem parse_period_refines_witness:
  "(\<forall>s. (str_upper ascii_py s = []) = (s = []))
   \<and> str_strip ascii_py ''   '' = []
   \<and> parse_period ascii_py ''   '' = (''Other'', ''N/A'')"
proof -
  have u: "\<forall>s. (str_upper ascii_py s = []) = (s = [])"
    by (simp add: ascii_py_def ascii_upper_nil)
  have t: "str_strip ascii_py ''   '' = []"
    by (simp add: ascii_py_def ascii_strip_blank)
  from parse_period_refines [of ascii_py "''   ''"] u
  have "parse_period ascii_py ''   '' =
          (let v = str_upper ascii_py (str_strip ascii_py ''   '') in
           if str_strip ascii_py ''   '' = [] then (''Other'', ''N/A'')
           else if hd v = CHR ''Q'' then (''Quarter'', v)
           else if hd v = CHR ''S'' then (''Semester'', v)
           else (''Other'', v))"
    by blast
  with t have "parse_period ascii_py ''   '' = (''Other'', ''N/A'')" by (simp add: Let_def)
  with u t show ?thesis by blast
qed

subsection \<open>Grade normaliser\<close>

lemma letter_points_table: "letter_points py (Str s) = table_points (str_upper py s)"
  by (simp add: letter_points_def LETTER_TO_POINTS_def)

lemma letter_points_range: "letter_points py v \<in> {0, 1, 2, 3, 4}"
proof (cases v)
  case (Str s)
  then show ?thesis
    by (simp add: letter_points_def LETTER_TO_POINTS_def)
next
  case (Num x)
  then show ?thesis by (simp add: letter_points_def)
qed

lemma score_to_points_range:
  "score_to_points py st v = Inr p \<Longrightarrow> p \<in> {0, 1, 2, 3, 4}"
  using letter_points_range [of py v]
  by (auto simp: score_to_points_def split: if_splits sum.splits)

lemma numeric_label: "NUMERIC_TYPE \<noteq> LETTER_TYPE"
  by (simp add: NUMERIC_TYPE_def LETTER_TYPE_def)

lemma score_to_points_numeric:
  "st \<noteq> LETTER_TYPE \<Longrightarrow> score_to_points py st (Num x) = Inr (band x)"
  by (simp add: score_to_points_def py_float_def band_def)

lemma score_to_points_letter:
  "score_to_points py LETTER_TYPE (Str s) = Inr (table_points (str_upper py s))"
  by (simp add: score_to_points_def letter_points_table)

text \<open>
  C1. For every score-type label and every raw grade, and whatever \<^verbatim>\<open>upper\<close> and \<^verbatim>\<open>float\<close>
  are, \<^verbatim>\<open>score_to_points\<close> is the reference definition: under the letter label the
  uppercased text goes through the table, anything else giving 0; under any other label a
  grade that reads as the number \<open>x\<close> gives 4 from 90 on, 3 on [80, 90), 2 on [70, 80),
  1 on [60, 70) and 0 below. The letters, the boundaries 90, 80, 70, 60, and 89.99, 59.99,
  100 and 0 as examples, 89.99 also as a text.
\<close>

theorem score_to_points_refines:
  "as_spec (score_to_points py st v) = scoreToPoints_spec py (score_type_of st) v
   \<and> map (\<lambda>l. score_to_points (py\<lparr>str_upper := ascii_upper\<rparr>) LETTER_TYPE (Str l))
        [''A'', ''B'', ''C'', ''D'', ''F'', ''a'', ''Z'']
       = [Inr 4, Inr 3, Inr 2, Inr 1, Inr 0, Inr 4, Inr 0]
   \<and> map (\<lambda>x. score_to_points py NUMERIC_TYPE (Num x)) [90, 80, 70, 60, 89.99, 59.99, 100, 0]
       = [Inr 4, Inr 3, Inr 2, Inr 1, Inr 3, Inr 0, Inr 4, Inr 0]
   \<and> score_to_points (py\<lparr>float_str := float_decimal\<rparr>) NUMERIC_TYPE (Str ''89.99'') = Inr 3"
proof -
  have a: "as_spec (score_to_points py st v) = scoreToPoints_spec py (score_type_of st) v"
  proof (cases "st = LETTER_TYPE")
    case True
    show ?thesis
    proof (cases v)
      case (Str s)
      with True show ?thesis
        by (simp add: score_to_points_def score_type_of_def letter_points_table)
    next
      case (Num x)
      with True show ?thesis
        by (simp add: score_to_points_def score_type_of_def letter_points_def)
    qed
  next
    case False
    then show ?thesis
      by (cases v)
        (auto simp: score_to_points_def score_type_of_def py_float_def band_def
          split: option.splits)
  qed
  have up: "map ascii_upper [''A'', ''B'', ''C'', ''D'', ''F'', ''a'', ''Z'']
      = [''A'', ''B'', ''C'', ''D'', ''F'', ''A'', ''Z'']"
    by code_simp
  then have b: "map (\<lambda>l. score_to_points (py\<lparr>str_upper := ascii_upper\<rparr>) LETTER_TYPE (Str l))
        [''A'', ''B'', ''C'', ''D'', ''F'', ''a'', ''Z'']
      = [Inr 4, Inr 3, Inr 2, Inr 1, Inr 0, Inr 4, Inr 0]"
    by (simp add: score_to_points_letter)
  have c: "map (\<lambda>x. score_to_points py NUMERIC_TYPE (Num x))
        [90, 80, 70, 60, 89.99, 59.99, 100, 0]
      = [Inr 4, Inr 3, Inr 2, Inr 1, Inr 3, Inr 0, Inr 4, Inr 0]"
    by (simp add: score_to_points_numeric [OF numeric_label] band_def)
  have fd: "float_decimal ''89.99'' = Some 89.99" by code_simp
  have d: "score_to_points (py\<lparr>float_str := float_decimal\<rparr>) NUMERIC_TYPE (Str ''89.99'')
      = Inr 3"
    by (simp add: score_to_points_def py_float_def numeric_label fd)
  from a b c d show ?thesis by blast
qed

subsection \<open>Overall GPA\<close>

text \<open>
  C2. \<^verbatim>\<open>calculate_overall_gpa\<close> is the credit-weighted mean with the zero-credit guard: 0 when
  the credits sum to 0 or less, in particular on the empty table, and otherwise the sum of
  the weighted points over the sum of the credits. Two rows with credits 4 and 2 and
  points 4 and 2 give 20/6.
\<close>

theorem calculate_overall_gpa_weighted_mean:
  "calculate_overall_gpa data =
     (if (\<Sum>r\<leftarrow>data. credits r) \<le> 0 then 0
      else (\<Sum>r\<leftarrow>data. weighted_points r) / (\<Sum>r\<leftarrow>data. credits r))
   \<and> calculate_overall_gpa [] = 0
   \<and> calculate_overall_gpa
       [normalize_row py (r1\<lparr>credits := 4\<rparr>) 4, normalize_row py (r2\<lparr>credits := 2\<rparr>) 2]
       = 20 / 6"
  by (simp add: calculate_overall_gpa_def normalize_row_def)

lemma gpa_points_column_range:
  "gpa_points_column py df = Inr ps \<Longrightarrow> p \<in> set ps \<Longrightarrow> p \<in> {0, 1, 2, 3, 4}"
proof (induction df arbitrary: ps)
  case Nil
  then show ?case by simp
next
  case (Cons r rs)
  then obtain q qs where q: "score_to_points py (score_type r) (grade r) = Inr q"
    and qs: "gpa_points_column py rs = Inr qs" and ps: "ps = q # qs"
    by (auto split: sum.splits)
  from Cons.prems(2) ps have "p = q \<or> p \<in> set qs" by simp
  then show ?case
  proof
    assume "p = q"
    with score_to_points_range [OF q] show ?thesis by simp
  next
    assume "p \<in> set qs"
    with Cons.IH [OF qs] show ?thesis by simp
  qed
qed

lemma normalize_df_rows:
  assumes "normalize_df py df = Inr rows"
  shows "\<exists>ps. gpa_points_column py df = Inr ps
           \<and> rows = map (\<lambda>(r, p). normalize_row py r p) (zip df ps)"
  using assms by (auto simp: normalize_df_def split: sum.splits)

lemma normalize_df_row_facts:
  assumes "normalize_df py df = Inr rows" and "x \<in> set rows"
  shows "\<exists>r\<in>set df. credits x = credits r \<and> gpa_points x \<in> {0, 1, 2, 3, 4}
           \<and> weighted_points x = gpa_points x * credits x"
proof -
  from normalize_df_rows [OF assms(1)] obtain ps where ps: "gpa_points_column py df = Inr ps"
    and rows: "rows = map (\<lambda>(r, p). normalize_row py r p) (zip df ps)" by blast
  from assms(2) rows obtain r p where rp: "(r, p) \<in> set (zip df ps)"
    and x: "x = normalize_row py r p"
    by auto
  from rp have "r \<in> set df" and "p \<in> set ps"
    by (auto dest: set_zip_leftD set_zip_rightD)
  with gpa_points_column_range [OF ps] x show ?thesis
    by (auto simp: normalize_row_def)
qed

lemma upper_letters: "ascii_upper ''A'' = ''A''" "ascii_upper ''B'' = ''B''"
  by code_simp+

lemma normalize_initial: "normalize_df ascii_py initial_records = Inr initial_rows"
proof -
  have u: "str_upper ascii_py = ascii_upper" by (simp add: ascii_py_def)
  show ?thesis
    by (simp add: normalize_df_def initial_records_def initial_rows_def
        score_to_points_letter u upper_letters
        score_to_points_numeric [OF numeric_label] band_def)
qed

lemma weighted_sum_bounds:
  "(\<forall>r\<in>set data. 0 \<le> credits r \<and> 0 \<le> gpa_points r \<and> gpa_points r \<le> 4
       \<and> weighted_points r = gpa_points r * credits r)
   \<Longrightarrow> 0 \<le> sum_list (map weighted_points data)
       \<and> sum_list (map weighted_points data) \<le> 4 * sum_list (map credits data)"
proof (induction data)
  case Nil
  then show ?case by simp
next
  case (Cons r rs)
  then have c: "0 \<le> credits r" and p0: "0 \<le> gpa_points r" and p4: "gpa_points r \<le> 4"
    and w: "weighted_points r = gpa_points r * credits r" by simp_all
  from p0 c have w0: "0 \<le> gpa_points r * credits r" by simp
  from p4 c have w4: "gpa_points r * credits r \<le> 4 * credits r"
    by (rule mult_right_mono)
  from Cons have ih: "0 \<le> sum_list (map weighted_points rs)
       \<and> sum_list (map weighted_points rs) \<le> 4 * sum_list (map credits rs)" by simp
  with w w0 w4 show ?case by simp
qed

lemma overall_gpa_bounds:
  assumes "\<forall>r\<in>set data. 0 \<le> credits r \<and> 0 \<le> gpa_points r \<and> gpa_points r \<le> 4
       \<and> weighted_points r = gpa_points r * credits r"
  shows "0 \<le> calculate_overall_gpa data \<and> calculate_overall_gpa data \<le> 4"
proof (cases "sum_list (map credits data) \<le> 0")
  case True
  then show ?thesis by (simp add: calculate_overall_gpa_def)
next
  case False
  then have pos: "0 < sum_list (map credits data)" by simp
  from weighted_sum_bounds [OF assms] have lo: "0 \<le> sum_list (map weighted_points data)"
    and hi: "sum_list (map weighted_points data) \<le> 4 * sum_list (map credits data)"
    by simp_all
  from lo pos have a: "0 \<le> sum_list (map weighted_points data) / sum_list (map credits data)"
    by simp
  from hi pos have b: "sum_list (map weighted_points data) / sum_list (map credits data) \<le> 4"
    by (simp add: pos_divide_le_eq)
  from a b False show ?thesis by (simp add: calculate_overall_gpa_def)
qed

text \<open>
  C10. On a table whose rows have credits of at least 0, points from 0 to 4 and weighted
  points equal to points times credits, \<^verbatim>\<open>calculate_overall_gpa\<close> lies between 0 and 4.
  \<^verbatim>\<open>score_to_points\<close>, when it returns, returns one of 0, 1, 2, 3, 4; so the overall GPA of
  every table \<^verbatim>\<open>normalize_df\<close> makes of records with credits of at least 0 is on the scale.
\<close>

theorem overall_gpa_in_scale:
  "((\<forall>r\<in>set data. 0 \<le> credits r \<and> 0 \<le> gpa_points r \<and> gpa_points r \<le> 4
        \<and> weighted_points r = gpa_points r * credits r)
      \<longrightarrow> 0 \<le> calculate_overall_gpa data \<and> calculate_overall_gpa data \<le> 4)
   \<and> (score_to_points py st v = Inr p \<longrightarrow> p \<in> {0, 1, 2, 3, 4})
   \<and> (normalize_df py df = Inr rows \<and> (\<forall>r\<in>set df. 0 \<le> credits r)
      \<longrightarrow> 0 \<le> calculate_overall_gpa rows \<and> calculate_overall_gpa rows \<le> 4)"
proof (intro conjI impI)
  assume "\<forall>r\<in>set data. 0 \<le> credits r \<and> 0 \<le> gpa_points r \<and> gpa_points r \<le> 4
        \<and> weighted_points r = gpa_points r * credits r"
  from overall_gpa_bounds [OF this]
  show "0 \<le> calculate_overall_gpa data" and "calculate_overall_gpa data \<le> 4" by simp_all
next
  assume "score_to_points py st v = Inr p"
  then show "p \<in> {0, 1, 2, 3, 4}" by (rule score_to_points_range)
next
  assume h: "normalize_df py df = Inr rows \<and> (\<forall>r\<in>set df. 0 \<le> credits r)"
  have "\<forall>x\<in>set rows. 0 \<le> credits x \<and> 0 \<le> gpa_points x \<and> gpa_points x \<le> 4
        \<and> weighted_points x = gpa_points x * credits x"
  proof
    fix x assume "x \<in> set rows"
    with normalize_df_row_facts [of py df rows x] h
    obtain r where "r \<in> set df" and "credits x = credits r"
      and "gpa_points x \<in> {0, 1, 2, 3, 4}"
      and "weighted_points x = gpa_points x * credits x" by blast
    with h show "0 \<le> credits x \<and> 0 \<le> gpa_points x \<and> gpa_points x \<le> 4
        \<and> weighted_points x = gpa_points x * credits x" by auto
  qed
  from overall_gpa_bounds [OF this]
  show "0 \<le> calculate_overall_gpa rows" and "calculate_overall_gpa rows \<le> 4" by simp_all
qed

theorem overall_gpa_in_scale_witness:
  "normalize_df ascii_py initial_records = Inr initial_rows
   \<and> calculate_overall_gpa initial_rows = 57 / 17
   \<and> 0 \<le> calculate_overall_gpa initial_rows \<and> calculate_overall_gpa initial_rows \<le> 4
   \<and> score_to_points ascii_py NUMERIC_TYPE (Num 86) = Inr 3
   \<and> (3::real) \<in> {0, 1, 2, 3, 4}"
proof -
  have n: "normalize_df ascii_py initial_records = Inr initial_rows"
    by (rule normalize_initial)
  have c: "\<forall>r\<in>set initial_records. 0 \<le> credits r"
    by (simp add: initial_records_def)
  have s: "score_to_points ascii_py NUMERIC_TYPE (Num 86) = Inr 3"
    by (simp add: score_to_points_numeric [OF numeric_label] band_def)
  have v: "calculate_overall_gpa initial_rows = 57 / 17"
    by (simp add: calculate_overall_gpa_def initial_rows_def initial_records_def
        normalize_row_def)
  from overall_gpa_in_scale [of initial_rows ascii_py NUMERIC_TYPE "Num 86" 3
      initial_records initial_rows] n c s v
  show ?thesis by simp
qed

subsection \<open>Per-period table\<close>

lemma key_of_summarize: "key_of (summarize data k) = k"
  by (simp add: key_of_def summarize_def Let_def)

lemma keys_period_gpa: "map key_of (period_gpa data) = sort (remdups (map group_key data))"
  by (simp add: period_gpa_def key_of_summarize comp_def)

text \<open>
  C4. \<^verbatim>\<open>period_gpa\<close> groups the rows by the pair (period type, period name): it has one
  row for each pair that occurs and none else, and in the row of a pair the total of the
  weighted points and the total of the credits are the sums over the rows of that pair,
  and the GPA is their quotient when the credits are above 0 and 0 otherwise. (The rows
  come in ascending order of the pairs.)
\<close>

theorem period_gpa_groups:
  "distinct (map key_of (period_gpa data))
   \<and> sorted (map key_of (period_gpa data))
   \<and> set (map key_of (period_gpa data)) = set (map group_key data)
   \<and> (\<forall>s\<in>set (period_gpa data).
        total_weighted s
          = (\<Sum>r\<leftarrow>filter (\<lambda>r. (period_type r, period_name r) = key_of s) data.
               weighted_points r)
        \<and> total_credits s
          = (\<Sum>r\<leftarrow>filter (\<lambda>r. (period_type r, period_name r) = key_of s) data. credits r)
        \<and> gpa s = (if total_credits s > 0 then total_weighted s / total_credits s else 0))"
proof -
  have a: "distinct (map key_of (period_gpa data))"
    by (simp add: keys_period_gpa)
  have b: "sorted (map key_of (period_gpa data))"
    by (simp add: keys_period_gpa)
  have c: "set (map key_of (period_gpa data)) = set (map group_key data)"
    by (simp add: keys_period_gpa)
  have d: "\<forall>s\<in>set (period_gpa data).
        total_weighted s
          = (\<Sum>r\<leftarrow>filter (\<lambda>r. (period_type r, period_name r) = key_of s) data.
               weighted_points r)
        \<and> total_credits s
          = (\<Sum>r\<leftarrow>filter (\<lambda>r. (period_type r, period_name r) = key_of s) data. credits r)
        \<and> gpa s = (if total_credits s > 0 then total_weighted s / total_credits s else 0)"
  proof
    fix s assume "s \<in> set (period_gpa data)"
    then obtain k where s: "s = summarize data k" by (auto simp: period_gpa_def)
    show "total_weighted s
          = (\<Sum>r\<leftarrow>filter (\<lambda>r. (period_type r, period_name r) = key_of s) data.
               weighted_points r)
        \<and> total_credits s
          = (\<Sum>r\<leftarrow>filter (\<lambda>r. (period_type r, period_name r) = key_of s) data. credits r)
        \<and> gpa s = (if total_credits s > 0 then total_weighted s / total_credits s else 0)"
      unfolding s key_of_summarize
      by (simp add: summarize_def group_rows_def group_key_def Let_def)
  qed
  from a b c d show ?thesis by blast
qed

lemma period_gpa_initial:
  "period_gpa initial_rows =
     [ \<lparr> g_period_type = ''Quarter'', g_period_name = ''Q1'', total_weighted = 25,
         total_credits = 7, gpa = 25 / 7 \<rparr>,
       \<lparr> g_period_type = ''Quarter'', g_period_name = ''Q2'', total_weighted = 14,
         total_credits = 4, gpa = 7 / 2 \<rparr>,
       \<lparr> g_period_type = ''Semester'', g_period_name = ''S1'', total_weighted = 12,
         total_credits = 3, gpa = 4 \<rparr>,
       \<lparr> g_period_type = ''Semester'', g_period_name = ''S2'', total_weighted = 6,
         total_credits = 3, gpa = 2 \<rparr> ]"
  by code_simp

theorem period_gpa_groups_witness:
  "\<lparr> g_period_type = ''Quarter'', g_period_name = ''Q1'', total_weighted = 25,
      total_credits = 7, gpa = 25 / 7 \<rparr> \<in> set (period_gpa initial_rows)
   \<and> (\<Sum>r\<leftarrow>filter (\<lambda>r. (period_type r, period_name r) = (''Quarter'', ''Q1'')) initial_rows.
         weighted_points r) = 25
   \<and> (\<Sum>r\<leftarrow>filter (\<lambda>r. (period_type r, period_name r) = (''Quarter'', ''Q1'')) initial_rows.
         credits r) = 7
   \<and> map key_of (period_gpa initial_rows)
       = [(''Quarter'', ''Q1''), (''Quarter'', ''Q2''), (''Semester'', ''S1''),
          (''Semester'', ''S2'')]"
proof -
  let ?s = "\<lparr> g_period_type = ''Quarter'', g_period_name = ''Q1'', total_weighted = 25,
      total_credits = 7, gpa = 25 / 7 \<rparr>"
  have m: "?s \<in> set (period_gpa initial_rows)"
    by (simp add: period_gpa_initial)
  have k: "key_of ?s = (''Quarter'', ''Q1'')" by (simp add: key_of_def)
  from period_gpa_groups [of initial_rows] m
  have "total_weighted ?s
          = (\<Sum>r\<leftarrow>filter (\<lambda>r. (period_type r, period_name r) = key_of ?s) initial_rows.
               weighted_points r)
        \<and> total_credits ?s
          = (\<Sum>r\<leftarrow>filter (\<lambda>r. (period_type r, period_name r) = key_of ?s) initial_rows.
               credits r)"
    by blast
  with k have t: "(\<Sum>r\<leftarrow>filter (\<lambda>r. (period_type r, period_name r) = (''Quarter'', ''Q1''))
          initial_rows. weighted_points r) = 25
      \<and> (\<Sum>r\<leftarrow>filter (\<lambda>r. (period_type r, period_name r) = (''Quarter'', ''Q1''))
          initial_rows. credits r) = 7"
    by simp
  have ks: "map key_of (period_gpa initial_rows)
       = [(''Quarter'', ''Q1''), (''Quarter'', ''Q2''), (''Semester'', ''S1''),
          (''Semester'', ''S2'')]"
    by (simp add: period_gpa_initial key_of_def)
  from m t ks show ?thesis by blast
qed

subsection \<open>Order of the periods\<close>

lemma filter_sorted_split:
  "sorted (map k ys) \<Longrightarrow> (\<And>x. P x \<longleftrightarrow> k x < (c::nat))
   \<Longrightarrow> filter P ys @ filter (\<lambda>x. \<not> P x) ys = ys"
proof (induction ys)
  case Nil
  then show ?case by simp
next
  case (Cons y ys)
  show ?case
  proof (cases "P y")
    case True
    with Cons show ?thesis by simp
  next
    case False
    with Cons.prems have "\<forall>x\<in>set ys. \<not> P x" by fastforce
    then have "filter P ys = []" and "filter (\<lambda>x. \<not> P x) ys = ys" by simp_all
    with False show ?thesis by simp
  qed
qed

lemma order_key_cases:
  "order_key name =
     (if name = ''Q1'' then 1 else if name = ''Q2'' then 2 else if name = ''Q3'' then 3
      else if name = ''Q4'' then 4 else if name = ''S1'' then 5 else if name = ''S2'' then 6
      else 99)"
  by (simp add: order_key_def order_map_def)

lemma order_key_recognized: "name \<in> set PERIODS \<longleftrightarrow> order_key name < 99"
  by (simp add: order_key_cases PERIODS_def)

text \<open>
  C5. The trend table shows the period rows in the order Q1, Q2, Q3, Q4, S1, S2, and
  every row whose name is none of these six after all rows whose name is one of them:
  the sort keys of the six names are 1 to 6 in this order and that of any other name is
  99, the table is a rearrangement of the period rows in ascending order of the keys, and
  it consists of its rows with a name of the six followed by its other rows. Rows named
  S2, Q1, Q3, S1 come out as Q1, Q3, S1, S2; with rows named EXAM and Q0 among them,
  these two come last.
\<close>

theorem trend_df_canonical_order:
  "sorted (map (\<lambda>s. order_key (g_period_name s)) (trend_df xs))
   \<and> mset (trend_df xs) = mset xs
   \<and> map order_key PERIODS = [1, 2, 3, 4, 5, 6]
   \<and> order_key name = (if name \<in> set PERIODS then order_key name else 99)
   \<and> (name \<in> set PERIODS) = (order_key name \<le> 6)
   \<and> filter (\<lambda>s. g_period_name s \<in> set PERIODS) (trend_df xs)
       @ filter (\<lambda>s. g_period_name s \<notin> set PERIODS) (trend_df xs) = trend_df xs
   \<and> map g_period_name
        (trend_df (map (\<lambda>n. s\<lparr>g_period_name := n\<rparr>) [''S2'', ''Q1'', ''Q3'', ''S1'']))
       = [''Q1'', ''Q3'', ''S1'', ''S2'']
   \<and> map g_period_name
        (trend_df (map (\<lambda>n. s\<lparr>g_period_name := n\<rparr>)
           [''S2'', ''EXAM'', ''Q1'', ''Q3'', ''Q0'', ''S1'']))
       = [''Q1'', ''Q3'', ''S1'', ''S2'', ''EXAM'', ''Q0'']"
proof -
  have a: "sorted (map (\<lambda>s. order_key (g_period_name s)) (trend_df xs))"
    by (simp add: trend_df_def)
  have b: "mset (trend_df xs) = mset xs" by (simp add: trend_df_def)
  have c: "map order_key PERIODS = [1, 2, 3, 4, 5, 6]"
    by (simp add: order_key_cases PERIODS_def)
  have d: "order_key name = (if name \<in> set PERIODS then order_key name else 99)"
    by (simp add: order_key_cases PERIODS_def)
  have e: "(name \<in> set PERIODS) = (order_key name \<le> 6)"
    by (simp add: order_key_cases PERIODS_def)
  have f: "filter (\<lambda>s. g_period_name s \<in> set PERIODS) (trend_df xs)
       @ filter (\<lambda>s. g_period_name s \<notin> set PERIODS) (trend_df xs) = trend_df xs"
    by (rule filter_sorted_split [OF a]) (rule order_key_recognized)
  have g: "map g_period_name
        (trend_df (map (\<lambda>n. s\<lparr>g_period_name := n\<rparr>) [''S2'', ''Q1'', ''Q3'', ''S1'']))
       = [''Q1'', ''Q3'', ''S1'', ''S2'']"
    by (simp add: trend_df_def order_key_cases)
  have h: "map g_period_name
        (trend_df (map (\<lambda>n. s\<lparr>g_period_name := n\<rparr>)
           [''S2'', ''EXAM'', ''Q1'', ''Q3'', ''Q0'', ''S1'']))
       = [''Q1'', ''Q3'', ''S1'', ''S2'', ''EXAM'', ''Q0'']"
    by (simp add: trend_df_def order_key_cases)
  from a b c d e f g h show ?thesis by blast
qed

subsection \<open>Random records\<close>

lemma remove_nth_set:
  assumes "distinct xs" and "i < length xs"
  shows "set (take i xs @ drop (Suc i) xs) = set xs - {xs ! i}"
proof -
  have eq: "take i xs @ xs ! i # drop (Suc i) xs = xs"
    by (rule id_take_nth_drop [OF assms(2), symmetric])
  have d: "distinct (take i xs @ xs ! i # drop (Suc i) xs)"
    by (simp only: eq assms(1))
  then have out: "xs ! i \<notin> set (take i xs)" "xs ! i \<notin> set (drop (Suc i) xs)" by auto
  have "set (take i xs @ xs ! i # drop (Suc i) xs) = set xs" by (simp only: eq)
  then have "set (take i xs) \<union> {xs ! i} \<union> set (drop (Suc i) xs) = set xs" by simp
  with out show ?thesis by auto
qed

lemma remove_nth_distinct:
  assumes "distinct xs"
  shows "distinct (take i xs @ drop (Suc i) xs)"
proof -
  from assms have "set (take i xs) \<inter> set (drop (Suc i) xs) = {}"
    by (rule set_take_disj_set_drop_if_distinct) simp
  with assms show ?thesis by simp
qed

lemma draw_shape:
  "distinct xs \<Longrightarrow> k \<le> length xs
   \<Longrightarrow> length (fst (draw xs k g)) = k \<and> distinct (fst (draw xs k g))
       \<and> set (fst (draw xs k g)) \<subseteq> set xs"
proof (induction k arbitrary: xs g)
  case 0
  then show ?case by simp
next
  case (Suc k)
  define i where "i = fst (next_raw g) mod length xs"
  define ys where "ys = take i xs @ drop (Suc i) xs"
  from Suc.prems(2) have pos: "0 < length xs" by auto
  then have i: "i < length xs" by (simp add: i_def)
  have dys: "distinct ys" unfolding ys_def by (rule remove_nth_distinct [OF Suc.prems(1)])
  from i have lys: "length ys = length xs - 1" by (simp add: ys_def)
  with Suc.prems(2) have kys: "k \<le> length ys" by simp
  have sys: "set ys = set xs - {xs ! i}"
    unfolding ys_def by (rule remove_nth_set [OF Suc.prems(1) i])
  from Suc.IH [OF dys kys, of "snd (next_raw g)"]
  have ih: "length (fst (draw ys k (snd (next_raw g)))) = k"
    "distinct (fst (draw ys k (snd (next_raw g))))"
    "set (fst (draw ys k (snd (next_raw g)))) \<subseteq> set ys" by simp_all
  have eq: "fst (draw xs (Suc k) g) = xs ! i # fst (draw ys k (snd (next_raw g)))"
    by (simp add: i_def ys_def Let_def)
  from ih sys i show ?case unfolding eq by auto
qed

lemma choice_member:
  "seq \<noteq> [] \<Longrightarrow> \<exists>x g'. choice seq g = Inr (x, g') \<and> x \<in> set seq"
  by (simp add: choice_def)

lemma randint_range:
  "a \<le> b \<Longrightarrow> \<exists>n g'. randint a b g = Inr (n, g') \<and> a \<le> n \<and> n \<le> b"
proof -
  assume ab: "a \<le> b"
  then have "0 < nat (b - a + 1)" by simp
  then have "fst (next_raw g) mod nat (b - a + 1) < nat (b - a + 1)" by simp
  then have "int (fst (next_raw g) mod nat (b - a + 1)) < b - a + 1" by linarith
  with ab show ?thesis by (simp add: randint_def)
qed

lemma random_grade_shape:
  assumes "st \<in> set SCORE_TYPES"
  shows "\<exists>gr g'. random_grade st g = Inr (gr, g') \<and> grade_ok st gr"
proof (cases "st = LETTER_TYPE")
  case True
  have "LETTER_CHOICES \<noteq> []" by (simp add: LETTER_CHOICES_def)
  from choice_member [OF this, of g] obtain l g' where
    "choice LETTER_CHOICES g = Inr (l, g')" and "l \<in> set LETTER_CHOICES" by blast
  with True show ?thesis by (auto simp: random_grade_def grade_ok_def)
next
  case False
  with assms have st: "st = NUMERIC_TYPE" by (simp add: SCORE_TYPES_def)
  from randint_range [of 55 100 g] obtain n g' where
    "randint 55 100 g = Inr (n, g')" and "55 \<le> n" and "n \<le> 100" by auto
  with False st show ?thesis by (auto simp: random_grade_def grade_ok_def)
qed

lemma make_records_shape:
  "\<exists>recs. make_records ss g = Inr recs \<and> map subject recs = ss
        \<and> (\<forall>r\<in>set recs. generated_ok r)"
proof (induction ss arbitrary: g)
  case Nil
  then show ?case by simp
next
  case (Cons s ss)
  have "SCORE_TYPES \<noteq> []" by (simp add: SCORE_TYPES_def)
  from choice_member [OF this, of g] obtain st g1 where
    c1: "choice SCORE_TYPES g = Inr (st, g1)" and st: "st \<in> set SCORE_TYPES" by blast
  from random_grade_shape [OF st, of g1] obtain gr g2 where
    c2: "random_grade st g1 = Inr (gr, g2)" and gr: "grade_ok st gr"
    by blast
  have "CREDIT_CHOICES \<noteq> []" by (simp add: CREDIT_CHOICES_def)
  from choice_member [OF this, of g2] obtain c g3 where
    c3: "choice CREDIT_CHOICES g2 = Inr (c, g3)" and c: "c \<in> set CREDIT_CHOICES" by blast
  have "PERIODS \<noteq> []" by (simp add: PERIODS_def)
  from choice_member [OF this, of g3] obtain p g4 where
    c4: "choice PERIODS g3 = Inr (p, g4)" and p: "p \<in> set PERIODS" by blast
  from Cons.IH [of g4] obtain recs where
    c5: "make_records ss g4 = Inr recs" and subj: "map subject recs = ss"
    and ok: "\<forall>r\<in>set recs. generated_ok r" by blast
  let ?r = "\<lparr> subject = s, credits = c, score_type = st, grade = gr, period = p \<rparr>"
  from c1 c2 c3 c4 c5 have eq: "make_records (s # ss) g = Inr (?r # recs)" by simp
  from c gr p have "generated_ok ?r" by (simp add: generated_ok_def)
  with eq subj ok show ?case by simp
qed

lemma catalogue: "length RANDOM_SUBJECTS = 10" "distinct RANDOM_SUBJECTS"
  by (simp_all add: RANDOM_SUBJECTS_def)

lemma generate_shape:
  assumes "0 \<le> n"
  shows "\<exists>recs. generate_random_records n g = Inr recs
           \<and> length recs = nat (min n 10)
           \<and> distinct (map subject recs)
           \<and> set (map subject recs) \<subseteq> set RANDOM_SUBJECTS
           \<and> (\<forall>r\<in>set recs. generated_ok r)"
proof -
  define k where "k = nat (min n 10)"
  from assms have kn: "int k = min n (int (length RANDOM_SUBJECTS))"
    by (simp add: k_def catalogue)
  from assms have s: "sample RANDOM_SUBJECTS (min n (int (length RANDOM_SUBJECTS))) g
      = Inr (draw RANDOM_SUBJECTS k g)"
    by (simp add: sample_def k_def catalogue)
  have kl: "k \<le> length RANDOM_SUBJECTS" by (simp add: k_def catalogue)
  from draw_shape [OF catalogue(2) kl, of g]
  have d: "length (fst (draw RANDOM_SUBJECTS k g)) = k"
    "distinct (fst (draw RANDOM_SUBJECTS k g))"
    "set (fst (draw RANDOM_SUBJECTS k g)) \<subseteq> set RANDOM_SUBJECTS" by simp_all
  obtain ss g' where dr: "draw RANDOM_SUBJECTS k g = (ss, g')" by (cases "draw RANDOM_SUBJECTS k g")
  from make_records_shape [of ss g']
  obtain recs where m: "make_records ss g' = Inr recs"
    and subj0: "map subject recs = ss"
    and ok: "\<forall>r\<in>set recs. generated_ok r" by blast
  from dr subj0 have subj: "map subject recs = fst (draw RANDOM_SUBJECTS k g)" by simp
  from s m dr have g: "generate_random_records n g = Inr recs"
    by (simp add: generate_random_records_def)
  from subj d(1) have l: "length recs = k" by (metis length_map)
  from d(2) have ds: "distinct (map subject recs)" by (simp only: subj)
  from d(3) have ss: "set (map subject recs) \<subseteq> set RANDOM_SUBJECTS" by (simp only: subj)
  from g l ds ss ok show ?thesis unfolding k_def by blast
qed

lemma generate_negative: "n < 0 \<Longrightarrow> generate_random_records n g = Inl ValueError"
  by (simp add: generate_random_records_def sample_def)


text \<open>
  C9. For every number \<open>n\<close> of records, from 0 on, and every outcome of the random
  draws, \<^verbatim>\<open>generate_random_records\<close> returns exactly min(\<open>n\<close>, 10) records, the catalogue
  having 10 pairwise different subjects; their subjects are pairwise different entries
  of the catalogue, and each record has credits 2, 3 or 4, a period of the six, and
  either the letter type with one of the letters A, B, C, D, F or the numeric type with
  a whole number from 55 to 100, which lies in [0, 100]. (A negative argument is no
  number of records: \<^verbatim>\<open>random.sample\<close> raises \<^verbatim>\<open>ValueError\<close> on it.) The button calls the
  function with 6 and puts the 6 records in the place of whatever was stored.
\<close>

theorem generate_random_records_shape:
  "(0 \<le> n \<longrightarrow>
      (\<exists>recs. generate_random_records n g = Inr recs
         \<and> int (length recs) = min n (int (length RANDOM_SUBJECTS))
         \<and> distinct (map subject recs)
         \<and> set (map subject recs) \<subseteq> set RANDOM_SUBJECTS
         \<and> (\<forall>r\<in>set recs.
              credits r \<in> {2, 3, 4} \<and> period r \<in> set PERIODS
              \<and> (case grade r of
                    Str l \<Rightarrow> score_type r = LETTER_TYPE
                               \<and> l \<in> {''A'', ''B'', ''C'', ''D'', ''F''}
                  | Num x \<Rightarrow> score_type r = NUMERIC_TYPE
                               \<and> 55 \<le> x \<and> x \<le> 100 \<and> 0 \<le> x \<and> x = real_of_int \<lfloor>x\<rfloor>))))
   \<and> (n < 0 \<longrightarrow> generate_random_records n g = Inl ValueError)
   \<and> length RANDOM_SUBJECTS = 10 \<and> distinct RANDOM_SUBJECTS
   \<and> (\<exists>recs. generate_random_records 6 g = Inr recs \<and> length recs = 6
         \<and> script_run py (RandomizeClick g) records = (recs, Some Success, render py recs))"
proof (intro conjI impI)
  assume n: "0 \<le> n"
  from generate_shape [OF n, of g] obtain recs where
    g: "generate_random_records n g = Inr recs" and l: "length recs = nat (min n 10)"
    and d: "distinct (map subject recs)"
    and s: "set (map subject recs) \<subseteq> set RANDOM_SUBJECTS"
    and ok: "\<forall>r\<in>set recs. generated_ok r" by blast
  from n l have l': "int (length recs) = min n (int (length RANDOM_SUBJECTS))"
    by (simp add: catalogue)
  have ok': "\<forall>r\<in>set recs.
              credits r \<in> {2, 3, 4} \<and> period r \<in> set PERIODS
              \<and> (case grade r of
                    Str l \<Rightarrow> score_type r = LETTER_TYPE
                               \<and> l \<in> {''A'', ''B'', ''C'', ''D'', ''F''}
                  | Num x \<Rightarrow> score_type r = NUMERIC_TYPE
                               \<and> 55 \<le> x \<and> x \<le> 100 \<and> 0 \<le> x \<and> x = real_of_int \<lfloor>x\<rfloor>)"
  proof
    fix r assume "r \<in> set recs"
    with ok have "generated_ok r" by blast
    then show "credits r \<in> {2, 3, 4} \<and> period r \<in> set PERIODS
              \<and> (case grade r of
                    Str l \<Rightarrow> score_type r = LETTER_TYPE
                               \<and> l \<in> {''A'', ''B'', ''C'', ''D'', ''F''}
                  | Num x \<Rightarrow> score_type r = NUMERIC_TYPE
                               \<and> 55 \<le> x \<and> x \<le> 100 \<and> 0 \<le> x \<and> x = real_of_int \<lfloor>x\<rfloor>)"
      by (auto simp: generated_ok_def grade_ok_def CREDIT_CHOICES_def LETTER_CHOICES_def
          split: score_value.splits)
  qed
  from g l' d s ok'
  show "\<exists>recs. generate_random_records n g = Inr recs
         \<and> int (length recs) = min n (int (length RANDOM_SUBJECTS))
         \<and> distinct (map subject recs)
         \<and> set (map subject recs) \<subseteq> set RANDOM_SUBJECTS
         \<and> (\<forall>r\<in>set recs.
              credits r \<in> {2, 3, 4} \<and> period r \<in> set PERIODS
              \<and> (case grade r of
                    Str l \<Rightarrow> score_type r = LETTER_TYPE
                               \<and> l \<in> {''A'', ''B'', ''C'', ''D'', ''F''}
                  | Num x \<Rightarrow> score_type r = NUMERIC_TYPE
                               \<and> 55 \<le> x \<and> x \<le> 100 \<and> 0 \<le> x \<and> x = real_of_int \<lfloor>x\<rfloor>))"
    by blast
next
  assume "n < 0"
  then show "generate_random_records n g = Inl ValueError" by (rule generate_negative)
next
  show "length RANDOM_SUBJECTS = 10" by (rule catalogue)
next
  show "distinct RANDOM_SUBJECTS" by (rule catalogue)
next
  from generate_shape [of 6 g] obtain recs where
    g: "generate_random_records 6 g = Inr recs" and l: "length recs = 6" by auto
  from g have "script_run py (RandomizeClick g) records = (recs, Some Success, render py recs)"
    by (simp add: script_run_def)
  with g l show "\<exists>recs. generate_random_records 6 g = Inr recs \<and> length recs = 6
         \<and> script_run py (RandomizeClick g) records = (recs, Some Success, render py recs)"
    by blast
qed

theorem generate_random_records_shape_witness:
  "(0::int) \<le> 6
   \<and> (\<exists>recs. generate_random_records 6 [3, 1, 4, 1, 5, 9, 2, 6] = Inr recs
        \<and> length recs = 6 \<and> distinct (map subject recs))
   \<and> (- 1::int) < 0
   \<and> generate_random_records (- 1) [3, 1, 4, 1, 5, 9, 2, 6] = Inl ValueError"
proof -
  have a: "(0::int) \<le> 6" by simp
  have b: "(- 1::int) < 0" by simp
  from generate_random_records_shape [of 6 "[3, 1, 4, 1, 5, 9, 2, 6]"] a
  obtain recs where "generate_random_records 6 [3, 1, 4, 1, 5, 9, 2, 6] = Inr recs"
    and "int (length recs) = min 6 (int (length RANDOM_SUBJECTS))"
    and "distinct (map subject recs)" by blast
  moreover have "length RANDOM_SUBJECTS = 10" by (rule catalogue)
  ultimately have c: "\<exists>recs. generate_random_records 6 [3, 1, 4, 1, 5, 9, 2, 6] = Inr recs
        \<and> length recs = 6 \<and> distinct (map subject recs)" by auto
  from generate_random_records_shape [of "- 1" "[3, 1, 4, 1, 5, 9, 2, 6]"] b
  have d: "generate_random_records (- 1) [3, 1, 4, 1, 5, 9, 2, 6] = Inl ValueError" by blast
  from a b c d show ?thesis by blast
qed

subsection \<open>Record store\<close>

lemma strip_examples:
  "str_strip ascii_py ''   '' = []" "str_strip ascii_py '' Chem '' = ''Chem''"
proof -
  have "ascii_strip ''   '' = []" and "ascii_strip '' Chem '' = ''Chem''" by code_simp+
  then show "str_strip ascii_py ''   '' = []" "str_strip ascii_py '' Chem '' = ''Chem''"
    by (simp_all add: ascii_py_def)
qed

text \<open>
  C7. Whatever \<^verbatim>\<open>strip\<close> is: a submitted form whose subject is blank after trimming is
  answered with the warning and leaves the stored records as they were, their number
  included; a submitted form whose subject is not blank after trimming has its record,
  with the trimmed subject, appended at the end of the stored records. Without a
  submission nothing is stored.
\<close>

theorem add_record_form_blank_subject:
  "(str_strip py (f_subject fv) = [] \<longrightarrow>
      add_record_form py True fv records = (records, Some Warning)
      \<and> fst (script_run py (Submit fv) records) = records
      \<and> length (fst (script_run py (Submit fv) records)) = length records)
   \<and> (str_strip py (f_subject fv) \<noteq> [] \<longrightarrow>
      add_record_form py True fv records
        = (records @
             [\<lparr> subject = str_strip py (f_subject fv), credits = f_credits fv,
                score_type = f_score_type fv, grade = f_grade fv, period = f_period fv \<rparr>],
           Some Success)
      \<and> fst (script_run py (Submit fv) records)
        = records @
             [\<lparr> subject = str_strip py (f_subject fv), credits = f_credits fv,
                score_type = f_score_type fv, grade = f_grade fv, period = f_period fv \<rparr>])
   \<and> add_record_form py False fv records = (records, None)"
  by (simp add: add_record_form_def script_run_def)

theorem add_record_form_blank_subject_witness:
  "str_strip ascii_py (f_subject form_blank) = []
   \<and> fst (script_run ascii_py (Submit form_blank) initial_records) = initial_records
   \<and> str_strip ascii_py (f_subject form_chem) \<noteq> []
   \<and> fst (script_run ascii_py (Submit form_chem) initial_records)
       = initial_records @
           [\<lparr> subject = ''Chem'', credits = 3, score_type = NUMERIC_TYPE, grade = Num 85,
              period = ''Q1'' \<rparr>]"
proof -
  have a: "str_strip ascii_py (f_subject form_blank) = []"
    by (simp add: form_blank_def strip_examples)
  have b: "str_strip ascii_py (f_subject form_chem) \<noteq> []"
    by (simp add: form_chem_def strip_examples)
  from add_record_form_blank_subject [of ascii_py form_blank initial_records] a
  have c: "fst (script_run ascii_py (Submit form_blank) initial_records) = initial_records"
    by blast
  from add_record_form_blank_subject [of ascii_py form_chem initial_records] b
  have "fst (script_run ascii_py (Submit form_chem) initial_records)
      = initial_records @
           [\<lparr> subject = str_strip ascii_py (f_subject form_chem),
              credits = f_credits form_chem, score_type = f_score_type form_chem,
              grade = f_grade form_chem, period = f_period form_chem \<rparr>]"
    by blast
  then have d: "fst (script_run ascii_py (Submit form_chem) initial_records)
       = initial_records @
           [\<lparr> subject = ''Chem'', credits = 3, score_type = NUMERIC_TYPE, grade = Num 85,
              period = ''Q1'' \<rparr>]"
    by (simp add: form_chem_def strip_examples)
  from a b c d show ?thesis by blast
qed

subsection \<open>Records within the ranges\<close>












subsection \<open>Grades that do not read as numbers\<close>










subsection \<open>Ranges of credits and numeric grades\<close>



end
